theory Spec2Isabelle
  imports Main
begin

section \<open>JavaScript values and plain objects\<close>

text \<open>
  The settings object of \<^verbatim>\<open>Language.tsx\<close> is a plain JavaScript object read from local
  storage. Its field values are primitives; a property read that falls through to
  \<^verbatim>\<open>Object.prototype\<close> yields a function or an object, which are kept opaque.
  Numbers are restricted to integers.
\<close>

datatype js_value =
  JUndefined | JNull | JBool bool | JNum int | JStr string | JFunction | JObject

text \<open>The \<^verbatim>\<open>typeof\<close> operator.\<close>

fun typeof :: "js_value \<Rightarrow> string" where
  "typeof JUndefined = ''undefined''"
| "typeof JNull = ''object''"
| "typeof (JBool b) = ''boolean''"
| "typeof (JNum n) = ''number''"
| "typeof (JStr s) = ''string''"
| "typeof JFunction = ''function''"
| "typeof JObject = ''object''"

text \<open>A plain object is given by its own properties.\<close>

type_synonym js_object = "string \<rightharpoonup> js_value"

text \<open>
  The properties every plain object inherits from \<^verbatim>\<open>Object.prototype\<close>: the operator
  \<^verbatim>\<open>in\<close> and a property read both follow the prototype chain.
\<close>

definition Object_prototype :: "string \<rightharpoonup> js_value" where
  "Object_prototype = map_of
     [(''constructor'', JFunction), (''hasOwnProperty'', JFunction),
      (''isPrototypeOf'', JFunction), (''propertyIsEnumerable'', JFunction),
      (''toLocaleString'', JFunction), (''toString'', JFunction),
      (''valueOf'', JFunction), (''__proto__'', JObject),
      (''__defineGetter__'', JFunction), (''__defineSetter__'', JFunction),
      (''__lookupGetter__'', JFunction), (''__lookupSetter__'', JFunction)]"

text \<open>\<^verbatim>\<open>k in obj\<close>\<close>

definition js_in :: "string \<Rightarrow> js_object \<Rightarrow> bool" where
  "js_in k obj = (obj k \<noteq> None \<or> Object_prototype k \<noteq> None)"

text \<open>\<^verbatim>\<open>obj[k]\<close>\<close>

definition js_get :: "js_object \<Rightarrow> string \<Rightarrow> js_value" where
  "js_get obj k =
     (case obj k of
        Some v \<Rightarrow> v
      | None \<Rightarrow> (case Object_prototype k of Some v \<Rightarrow> v | None \<Rightarrow> JUndefined))"

section \<open>The options schema\<close>

text \<open>
  \<^verbatim>\<open>CodeGenOptions<TSettings>\<close>: a tagged union of boolean, string and combo options, each
  with a label and the name \<^verbatim>\<open>prop\<close> of the settings field it edits; a combo option also
  lists its choices.
\<close>

datatype CodeGenOptions =
  BooleanCodeGenOption string string
| StringCodeGenOption string string
| ComboCodeGenOption string string "(string \<times> js_value) list"

text \<open>The \<^verbatim>\<open>type\<close> tag and the \<^verbatim>\<open>prop\<close> of an option.\<close>

fun option_type :: "CodeGenOptions \<Rightarrow> string" where
  "option_type (BooleanCodeGenOption label prop) = ''boolean''"
| "option_type (StringCodeGenOption label prop) = ''string''"
| "option_type (ComboCodeGenOption label prop options) = ''combo''"

fun option_prop :: "CodeGenOptions \<Rightarrow> string" where
  "option_prop (BooleanCodeGenOption label prop) = prop"
| "option_prop (StringCodeGenOption label prop) = prop"
| "option_prop (ComboCodeGenOption label prop options) = prop"

section \<open>The settings change handler\<close>

text \<open>
  \<^verbatim>\<open>event.target\<close> of a \<^verbatim>\<open>ChangeEvent<HTMLInputElement> | SelectChangeEvent\<close>: the name of the
  control, its raw value, and the \<^verbatim>\<open>checked\<close> flag when the target has one (an input element
  has it, the target of a select change has not).
\<close>

record event_target =
  target_name :: string
  target_value :: js_value
  target_checked :: "bool option"

text \<open>
  \<^verbatim>\<open>handleChange\<close> (Language.tsx, lines 181 to 198). The result is \<open>None\<close> when the
  handler returns without calling \<^verbatim>\<open>setSettings\<close>, and \<open>Some s\<close> when it calls
  \<^verbatim>\<open>setSettings(s)\<close>. The object literal \<^verbatim>\<open>{ ...settings, [name]: v }\<close> copies the own
  properties of the settings and defines the own property \<^verbatim>\<open>name\<close>.
\<close>

definition handleChange :: "js_object \<Rightarrow> event_target \<Rightarrow> js_object option" where
  "handleChange settings target =
     (if \<not> js_in (target_name target) settings then None
      else
        let ty = typeof (js_get settings (target_name target)) in
        if ty = ''boolean'' \<and> target_checked target \<noteq> None
        then Some (settings(target_name target \<mapsto>
               (case target_checked target of Some b \<Rightarrow> JBool b | None \<Rightarrow> JUndefined)))
        else Some (settings(target_name target \<mapsto> target_value target)))"

text \<open>
  The settings the component asks for once the handler has run: the object passed to
  \<^verbatim>\<open>setSettings\<close>, or the previous settings when the handler made no call. What the
  hook then writes to local storage and reads back is outside the model.
\<close>

definition settings_after :: "js_object \<Rightarrow> event_target \<Rightarrow> js_object" where
  "settings_after settings target =
     (case handleChange settings target of None \<Rightarrow> settings | Some s \<Rightarrow> s)"

text \<open>
  The handler as section 4.4 of the specification words it, for comparison with
  \<open>handleChange\<close>: the same guard and the same two writes, but the boolean treatment is
  chosen by the \<^verbatim>\<open>type\<close> tag of the option declared for the field.
\<close>

definition declared_type :: "CodeGenOptions list \<Rightarrow> string \<Rightarrow> string option" where
  "declared_type opts field =
     map_option option_type (find (\<lambda>opt. option_prop opt = field) opts)"

definition handleChange_by_schema ::
  "CodeGenOptions list \<Rightarrow> js_object \<Rightarrow> event_target \<Rightarrow> js_object option" where
  "handleChange_by_schema opts settings target =
     (if \<not> js_in (target_name target) settings then None
      else
        if declared_type opts (target_name target) = Some ''boolean''
           \<and> target_checked target \<noteq> None
        then Some (settings(target_name target \<mapsto>
               (case target_checked target of Some b \<Rightarrow> JBool b | None \<Rightarrow> JUndefined)))
        else Some (settings(target_name target \<mapsto> target_value target)))"

text \<open>
  The guard \<^verbatim>\<open>event.target.name in settings\<close> on whatever the settings state holds: the
  operator \<^verbatim>\<open>in\<close> throws a \<^verbatim>\<open>TypeError\<close> when its right operand is not an object
  (\<^verbatim>\<open>undefined\<close>, \<^verbatim>\<open>null\<close>, a boolean, a number or a string, which the declared type of
  the settings excludes); on an object the handler runs as above and has no throwing step.
\<close>

datatype js_error = TypeError

datatype js_primitive = PUndefined | PNull | PBool bool | PNum int | PStr string

datatype settings_state = SettingsObject js_object | SettingsPrimitive js_primitive

definition handleChange_stored ::
  "settings_state \<Rightarrow> event_target \<Rightarrow> js_error + js_object option" where
  "handleChange_stored state target =
     (case state of
        SettingsPrimitive v \<Rightarrow> Inl TypeError
      | SettingsObject settings \<Rightarrow> Inr (handleChange settings target))"

section \<open>The code-generation contract\<close>

text \<open>The data model of \<^verbatim>\<open>ICodeGenerator.ts\<close>. A \<^verbatim>\<open>number\<close> is an integer here.\<close>

record CodeGenType =
  pointers :: int
  baseType :: string
  isConst :: bool

record CodeGenParam =
  param_type :: CodeGenType
  param_name :: string

record CodeGenNative =
  cg_hash :: string
  cg_jhash :: "string option"
  cg_params :: "CodeGenParam list"
  cg_returnType :: CodeGenType
  cg_name :: string
  cg_comment :: string
  cg_build :: "string option"
  cg_oldNames :: "string list option"

record CodeGeneratorFile =
  file_name :: string
  file_extension :: string
  file_content :: string
  file_mimeType :: string

text \<open>
  The methods of the interface \<^verbatim>\<open>ICodeGenerator\<close> and the return type each one is declared
  with.
\<close>

datatype generator_method =
  M_start | M_end | M_nativeToCodeGenNative | M_addNative | M_pushNamespace
| M_popNamespace | M_get | M_submitExtraFile | M_getExtraFiles | M_clearExtraFiles

datatype return_type =
  R_this | R_void | R_string | R_CodeGenNative | R_CodeGeneratorFile_array

fun declared_return :: "generator_method \<Rightarrow> return_type" where
  "declared_return M_start = R_this"
| "declared_return M_end = R_this"
| "declared_return M_nativeToCodeGenNative = R_CodeGenNative"
| "declared_return M_addNative = R_this"
| "declared_return M_pushNamespace = R_this"
| "declared_return M_popNamespace = R_this"
| "declared_return M_get = R_string"
| "declared_return M_submitExtraFile = R_void"
| "declared_return M_getExtraFiles = R_CodeGeneratorFile_array"
| "declared_return M_clearExtraFiles = R_void"

section \<open>Backend instances\<close>

text \<open>
  The state of one backend instance: the list of extra files and the rest of the instance
  (emission buffer, namespace stack, settings), which belongs to the backend.
\<close>

record 'b generator =
  extraFiles :: "CodeGeneratorFile list"
  impl :: 'b

text \<open>
  Modelled from the spec: the extra-file accumulator of a backend. The implementation of
  \<^verbatim>\<open>submitExtraFile\<close>, \<^verbatim>\<open>getExtraFiles\<close> and \<^verbatim>\<open>clearExtraFiles\<close> (the class
  \<^verbatim>\<open>CodeGeneratorBase\<close>) is not among the sources; only the interface is. Section 4.1: a
  side-channel accumulator independent of the main buffer, readable any time, explicitly
  clearable; section 8: entries are returned in submission order.
\<close>

definition submitExtraFile :: "'b generator \<Rightarrow> CodeGeneratorFile \<Rightarrow> 'b generator" where
  "submitExtraFile g file = g\<lparr>extraFiles := extraFiles g @ [file]\<rparr>"

definition getExtraFiles :: "'b generator \<Rightarrow> CodeGeneratorFile list" where
  "getExtraFiles g = extraFiles g"

definition clearExtraFiles :: "'b generator \<Rightarrow> 'b generator" where
  "clearExtraFiles g = g\<lparr>extraFiles := []\<rparr>"

text \<open>The two kinds of error of the export (section 7 of the specification).\<close>

datatype error = ContractViolation string | DataIntegrity string

text \<open>
  A backend class: its constructor from a settings object and the lifecycle methods that
  each target language implements. The backends are not among the sources, so they are a
  parameter. A method that throws returns \<open>Inl\<close>; a method that returns \<^verbatim>\<open>this\<close> returns
  the updated instance.
\<close>

record ('b, 'n) backend =
  gen_new :: "js_object \<Rightarrow> 'b generator"
  gen_start :: "'b generator \<Rightarrow> error + 'b generator"
  gen_end :: "'b generator \<Rightarrow> error + 'b generator"
  gen_nativeToCodeGenNative :: "'b generator \<Rightarrow> 'n \<Rightarrow> error + CodeGenNative"
  gen_addNative :: "'b generator \<Rightarrow> CodeGenNative \<Rightarrow> error + 'b generator"
  gen_pushNamespace :: "'b generator \<Rightarrow> string \<Rightarrow> error + 'b generator"
  gen_popNamespace :: "'b generator \<Rightarrow> error + 'b generator"
  gen_get :: "'b generator \<Rightarrow> error + string"

section \<open>The exporter\<close>

text \<open>
  The catalog handed to \<^verbatim>\<open>exportNatives\<close>: the namespaces in the iteration order of the
  mapping, each with its name and its list of native hashes, and the natives by hash.
\<close>

record Namespace =
  ns_name :: string
  ns_natives :: "string list"

record 'n NativeData =
  namespaces :: "(string \<times> Namespace) list"
  natives :: "string \<rightharpoonup> 'n"

text \<open>
  Modelled from the spec: the class \<^verbatim>\<open>NativeExporter\<close> with its method \<^verbatim>\<open>exportNatives\<close>
  is not among the sources (only its callers in Language.tsx are). Section 4.3: call
  \<^verbatim>\<open>start\<close>; for each namespace in order \<^verbatim>\<open>pushNamespace(name)\<close>, then for each hash of its
  list, in order, look the native up (a missing hash fails the export), convert it with
  \<^verbatim>\<open>nativeToCodeGenNative\<close> and pass it to \<^verbatim>\<open>addNative\<close>, then \<^verbatim>\<open>popNamespace\<close>; call
  \<^verbatim>\<open>end\<close>; return \<^verbatim>\<open>get()\<close>. Any failure aborts the whole export.
\<close>

fun add_natives ::
  "('b, 'n) backend \<Rightarrow> (string \<rightharpoonup> 'n) \<Rightarrow> string list \<Rightarrow> 'b generator
     \<Rightarrow> error + 'b generator" where
  "add_natives B nats [] g = Inr g"
| "add_natives B nats (h # hs) g =
     (case nats h of
        None \<Rightarrow> Inl (DataIntegrity h)
      | Some raw \<Rightarrow>
          (case gen_nativeToCodeGenNative B g raw of
             Inl e \<Rightarrow> Inl e
           | Inr native \<Rightarrow>
               (case gen_addNative B g native of
                  Inl e \<Rightarrow> Inl e
                | Inr g' \<Rightarrow> add_natives B nats hs g')))"

fun export_namespaces ::
  "('b, 'n) backend \<Rightarrow> (string \<rightharpoonup> 'n) \<Rightarrow> (string \<times> Namespace) list \<Rightarrow> 'b generator
     \<Rightarrow> error + 'b generator" where
  "export_namespaces B nats [] g = Inr g"
| "export_namespaces B nats ((key, ns) # rest) g =
     (case gen_pushNamespace B g (ns_name ns) of
        Inl e \<Rightarrow> Inl e
      | Inr g1 \<Rightarrow>
          (case add_natives B nats (ns_natives ns) g1 of
             Inl e \<Rightarrow> Inl e
           | Inr g2 \<Rightarrow>
               (case gen_popNamespace B g2 of
                  Inl e \<Rightarrow> Inl e
                | Inr g3 \<Rightarrow> export_namespaces B nats rest g3)))"

text \<open>
  The result of a successful export is the main text together with the backend instance
  as the run leaves it, which the caller asks for its extra files.
\<close>

definition exportNatives ::
  "('b, 'n) backend \<Rightarrow> 'b generator \<Rightarrow> 'n NativeData \<Rightarrow> error + (string \<times> 'b generator)" where
  "exportNatives B g catalog =
     (case gen_start B g of
        Inl e \<Rightarrow> Inl e
      | Inr g1 \<Rightarrow>
          (case export_namespaces B (natives catalog) (namespaces catalog) g1 of
             Inl e \<Rightarrow> Inl e
           | Inr g2 \<Rightarrow>
               (case gen_end B g2 of
                  Inl e \<Rightarrow> Inl e
                | Inr g3 \<Rightarrow>
                    (case gen_get B g3 of
                       Inl e \<Rightarrow> Inl e
                     | Inr text \<Rightarrow> Inr (text, g3)))))"

section \<open>The page: preview and download\<close>

text \<open>
  The raw native record of the catalog. Its declaration is not among the sources; the page
  reads the fields \<^verbatim>\<open>hash\<close> and \<^verbatim>\<open>namespace\<close>, every other field is left to the
  extension of the record.
\<close>

record Native =
  native_hash :: string
  native_namespace :: string

text \<open>One call \<^verbatim>\<open>download(data, filename, mimeType)\<close> of downloadjs.\<close>

record download =
  dl_data :: string
  dl_filename :: string
  dl_mimeType :: string

text \<open>
  \<^verbatim>\<open>handleDownload\<close> (Language.tsx, lines 200 to 214), as a function from the downloads
  offered so far to the downloads offered after it: a new exporter over a new backend
  instance, the export of the whole catalog, the download of the main text as
  \<^verbatim>\<open>natives.<extension>\<close> and one download for each extra file. An exception of the export
  leaves the handler before any download.
\<close>

definition handleDownload ::
  "('b, 'n) backend \<Rightarrow> string \<Rightarrow> js_object \<Rightarrow> 'n NativeData \<Rightarrow> download list
     \<Rightarrow> error + download list" where
  "handleDownload generator extension settings catalog offered =
     (case exportNatives generator (gen_new generator settings) catalog of
        Inl e \<Rightarrow> Inl e
      | Inr (code, exporter) \<Rightarrow>
          Inr (foldl
                 (\<lambda>ds file. ds @
                    [\<lparr>dl_data = file_content file,
                      dl_filename = file_name file @ ''.'' @ file_extension file,
                      dl_mimeType = file_mimeType file\<rparr>])
                 (offered @
                    [\<lparr>dl_data = code, dl_filename = ''natives.'' @ extension,
                      dl_mimeType = ''text/plain''\<rparr>])
                 (getExtraFiles exporter)))"

text \<open>
  \<^verbatim>\<open>preview\<close> (Language.tsx, lines 152 to 179): the export of the one previewed native, in
  a catalog of its own namespace, and the extra files named and tagged with the part of
  the MIME type after its first slash.
\<close>

record PreviewDataExtraFile =
  pv_name :: string
  pv_content :: string
  pv_language :: string

record PreviewData =
  pv_main :: string
  pv_extra_files :: "PreviewDataExtraFile list"

text \<open>\<^verbatim>\<open>mimeType.slice(mimeType.indexOf('/') + 1)\<close>: without a slash the index is \<open>-1\<close>.\<close>

definition mime_language :: "string \<Rightarrow> string" where
  "mime_language mimeType =
     (if CHR ''/'' \<in> set mimeType
      then tl (dropWhile (\<lambda>c. c \<noteq> CHR ''/'') mimeType)
      else mimeType)"

definition preview ::
  "('b, 'a Native_scheme) backend \<Rightarrow> js_object \<Rightarrow> 'a Native_scheme \<Rightarrow> error + PreviewData" where
  "preview generator settings nativeData =
     (case exportNatives generator (gen_new generator settings)
             \<lparr>namespaces =
                [(native_namespace nativeData,
                  \<lparr>ns_name = native_namespace nativeData,
                   ns_natives = [native_hash nativeData]\<rparr>)],
              natives = [native_hash nativeData \<mapsto> nativeData]\<rparr> of
        Inl e \<Rightarrow> Inl e
      | Inr (maincode, exporter) \<Rightarrow>
          Inr (foldl
                 (\<lambda>res file. res\<lparr>pv_extra_files := pv_extra_files res @
                    [\<lparr>pv_name = file_name file @ ''.'' @ file_extension file,
                      pv_content = file_content file,
                      pv_language = mime_language (file_mimeType file)\<rparr>]\<rparr>)
                 \<lparr>pv_main = maincode, pv_extra_files = []\<rparr>
                 (getExtraFiles exporter)))"

section \<open>A concrete backend and concrete catalogs\<close>

text \<open>
  A small backend on which the exporter can be run: the instance keeps the emitted text and
  the stack of open namespaces, \<^verbatim>\<open>popNamespace\<close> fails when no namespace is open,
  \<^verbatim>\<open>end\<close> fails when one is still open and otherwise submits one extra file. The
  theorems below are instantiated with it.
\<close>

definition sample_backend :: "(string \<times> string list, 'a Native_scheme) backend" where
  "sample_backend =
     \<lparr>gen_new = (\<lambda>settings. \<lparr>extraFiles = [], impl = ('''', [])\<rparr>),
      gen_start = (\<lambda>g. Inr (g\<lparr>impl := ('''', [])\<rparr>)),
      gen_end = (\<lambda>g.
        if snd (impl g) = []
        then Inr (submitExtraFile g
               \<lparr>file_name = ''hashes'', file_extension = ''json'',
                file_content = ''[]'', file_mimeType = ''application/json''\<rparr>)
        else Inl (ContractViolation ''end'')),
      gen_nativeToCodeGenNative = (\<lambda>g native. Inr
        \<lparr>cg_hash = native_hash native, cg_jhash = None, cg_params = [],
         cg_returnType = \<lparr>pointers = 0, baseType = ''void'', isConst = False\<rparr>,
         cg_name = native_hash native, cg_comment = '''', cg_build = None,
         cg_oldNames = None\<rparr>),
      gen_addNative = (\<lambda>g native.
        Inr (g\<lparr>impl := (fst (impl g) @ cg_name native @ ''; '', snd (impl g))\<rparr>)),
      gen_pushNamespace = (\<lambda>g name.
        Inr (g\<lparr>impl := (fst (impl g) @ name @ '' { '', name # snd (impl g))\<rparr>)),
      gen_popNamespace = (\<lambda>g.
        case snd (impl g) of
          [] \<Rightarrow> Inl (ContractViolation ''popNamespace'')
        | name # open_namespaces \<Rightarrow>
            Inr (g\<lparr>impl := (fst (impl g) @ ''} '', open_namespaces)\<rparr>)),
      gen_get = (\<lambda>g. Inr (fst (impl g)))\<rparr>"

text \<open>The catalog of the concrete scenario of section 8: one namespace with one native.\<close>

definition sample_catalog :: "Native NativeData" where
  "sample_catalog =
     \<lparr>namespaces =
        [(''NATIVE'', \<lparr>ns_name = ''NATIVE'', ns_natives = [''0xD49F9B0955C367DE'']\<rparr>)],
      natives =
        [''0xD49F9B0955C367DE'' \<mapsto>
           \<lparr>native_hash = ''0xD49F9B0955C367DE'', native_namespace = ''NATIVE''\<rparr>]\<rparr>"

text \<open>The same catalog with a second hash in the namespace that the natives lack.\<close>

definition broken_catalog :: "Native NativeData" where
  "broken_catalog =
     \<lparr>namespaces =
        [(''NATIVE'',
          \<lparr>ns_name = ''NATIVE'',
           ns_natives = [''0xD49F9B0955C367DE'', ''0x4EDE34FBADD967A6'']\<rparr>)],
      natives =
        [''0xD49F9B0955C367DE'' \<mapsto>
           \<lparr>native_hash = ''0xD49F9B0955C367DE'', native_namespace = ''NATIVE''\<rparr>]\<rparr>"

section \<open>Backends whose methods may have more than one outcome\<close>

text \<open>
  Modelled from the spec: the backends and the class \<^verbatim>\<open>NativeExporter\<close> are not among the
  sources. To compare two runs of an export, a method of a backend is taken as a relation
  between its arguments and the outcomes it may have: a JavaScript method can read the
  clock, draw random numbers or depend on state outside the instance, so two calls with
  the same arguments need not agree. The exporter of section 4.3 over such a backend is a
  relation between the catalog and the results a run may have.
\<close>

record ('b, 'n) backend_rel =
  may_new :: "js_object \<Rightarrow> 'b generator \<Rightarrow> bool"
  may_start :: "'b generator \<Rightarrow> error + 'b generator \<Rightarrow> bool"
  may_end :: "'b generator \<Rightarrow> error + 'b generator \<Rightarrow> bool"
  may_nativeToCodeGenNative :: "'b generator \<Rightarrow> 'n \<Rightarrow> error + CodeGenNative \<Rightarrow> bool"
  may_addNative :: "'b generator \<Rightarrow> CodeGenNative \<Rightarrow> error + 'b generator \<Rightarrow> bool"
  may_pushNamespace :: "'b generator \<Rightarrow> string \<Rightarrow> error + 'b generator \<Rightarrow> bool"
  may_popNamespace :: "'b generator \<Rightarrow> error + 'b generator \<Rightarrow> bool"
  may_get :: "'b generator \<Rightarrow> error + string \<Rightarrow> bool"

fun add_natives_may ::
  "('b, 'n) backend_rel \<Rightarrow> (string \<rightharpoonup> 'n) \<Rightarrow> string list \<Rightarrow> 'b generator
     \<Rightarrow> error + 'b generator \<Rightarrow> bool" where
  "add_natives_may R nats [] g r = (r = Inr g)"
| "add_natives_may R nats (h # hs) g r =
     (case nats h of
        None \<Rightarrow> r = Inl (DataIntegrity h)
      | Some raw \<Rightarrow>
          (\<exists>converted. may_nativeToCodeGenNative R g raw converted \<and>
             (case converted of
                Inl e \<Rightarrow> r = Inl e
              | Inr native \<Rightarrow>
                  (\<exists>added. may_addNative R g native added \<and>
                     (case added of
                        Inl e \<Rightarrow> r = Inl e
                      | Inr g' \<Rightarrow> add_natives_may R nats hs g' r)))))"

fun export_namespaces_may ::
  "('b, 'n) backend_rel \<Rightarrow> (string \<rightharpoonup> 'n) \<Rightarrow> (string \<times> Namespace) list \<Rightarrow> 'b generator
     \<Rightarrow> error + 'b generator \<Rightarrow> bool" where
  "export_namespaces_may R nats [] g r = (r = Inr g)"
| "export_namespaces_may R nats ((key, ns) # rest) g r =
     (\<exists>pushed. may_pushNamespace R g (ns_name ns) pushed \<and>
        (case pushed of
           Inl e \<Rightarrow> r = Inl e
         | Inr g1 \<Rightarrow>
             (\<exists>filled. add_natives_may R nats (ns_natives ns) g1 filled \<and>
                (case filled of
                   Inl e \<Rightarrow> r = Inl e
                 | Inr g2 \<Rightarrow>
                     (\<exists>popped. may_popNamespace R g2 popped \<and>
                        (case popped of
                           Inl e \<Rightarrow> r = Inl e
                         | Inr g3 \<Rightarrow> export_namespaces_may R nats rest g3 r))))))"

definition exportNatives_may ::
  "('b, 'n) backend_rel \<Rightarrow> 'b generator \<Rightarrow> 'n NativeData
     \<Rightarrow> error + (string \<times> 'b generator) \<Rightarrow> bool" where
  "exportNatives_may R g catalog r =
     (\<exists>started. may_start R g started \<and>
        (case started of
           Inl e \<Rightarrow> r = Inl e
         | Inr g1 \<Rightarrow>
             (\<exists>walked. export_namespaces_may R (natives catalog) (namespaces catalog) g1 walked \<and>
                (case walked of
                   Inl e \<Rightarrow> r = Inl e
                 | Inr g2 \<Rightarrow>
                     (\<exists>ended. may_end R g2 ended \<and>
                        (case ended of
                           Inl e \<Rightarrow> r = Inl e
                         | Inr g3 \<Rightarrow>
                             (\<exists>got. may_get R g3 got \<and>
                                (case got of
                                   Inl e \<Rightarrow> r = Inl e
                                 | Inr text \<Rightarrow> r = Inr (text, g3)))))))))"

text \<open>
  What the caller of one invocation sees: the error, or the main text that
  \<^verbatim>\<open>exportNatives\<close> returns and the list that \<^verbatim>\<open>getExtraFiles()\<close> returns after it. An
  invocation constructs its own backend instance from the settings, as \<^verbatim>\<open>preview\<close> and
  \<^verbatim>\<open>handleDownload\<close> do.
\<close>

definition export_outputs ::
  "error + (string \<times> 'b generator) \<Rightarrow> error + (string \<times> CodeGeneratorFile list)" where
  "export_outputs res =
     (case res of Inl e \<Rightarrow> Inl e | Inr (text, g) \<Rightarrow> Inr (text, getExtraFiles g))"

definition export_invocation ::
  "('b, 'n) backend_rel \<Rightarrow> js_object \<Rightarrow> 'n NativeData
     \<Rightarrow> error + (string \<times> CodeGeneratorFile list) \<Rightarrow> bool" where
  "export_invocation R settings catalog out =
     (\<exists>g res. may_new R settings g \<and> exportNatives_may R g catalog res
        \<and> out = export_outputs res)"




text \<open>
  A backend whose methods are functions of the instance and the arguments, as a backend
  of relations: each method has exactly the outcome the function gives.
\<close>

definition backend_graph :: "('b, 'n) backend \<Rightarrow> ('b, 'n) backend_rel" where
  "backend_graph B =
     \<lparr>may_new = (\<lambda>settings g. g = gen_new B settings),
      may_start = (\<lambda>g r. r = gen_start B g),
      may_end = (\<lambda>g r. r = gen_end B g),
      may_nativeToCodeGenNative = (\<lambda>g raw r. r = gen_nativeToCodeGenNative B g raw),
      may_addNative = (\<lambda>g native r. r = gen_addNative B g native),
      may_pushNamespace = (\<lambda>g name r. r = gen_pushNamespace B g name),
      may_popNamespace = (\<lambda>g r. r = gen_popNamespace B g),
      may_get = (\<lambda>g r. r = gen_get B g)\<rparr>"

text \<open>
  The sample backend with a \<^verbatim>\<open>get\<close> that may return the emitted text or the text followed
  by a time stamp: a backend that is not deterministic.
\<close>

definition stamping_backend :: "(string \<times> string list, 'a Native_scheme) backend_rel" where
  "stamping_backend =
     (backend_graph sample_backend)
       \<lparr>may_get := (\<lambda>g r. r = Inr (fst (impl g)) \<or> r = Inr (fst (impl g) @ ''// 12:00''))\<rparr>"

section \<open>Properties of the change handler\<close>

lemma js_get_upd_same: "js_get (obj(k \<mapsto> v)) k = v"
  by (simp add: js_get_def)

lemma js_get_upd_other: "k' \<noteq> k \<Longrightarrow> js_get (obj(k \<mapsto> v)) k' = js_get obj k'"
  by (simp add: js_get_def)

text \<open>
  C1, as the specification states it: the handler chooses the boolean treatment of a field
  from the \<^verbatim>\<open>type\<close> tag of the option declared for it. This fails. The option for
  \<^verbatim>\<open>comments\<close> is declared boolean and rendered as a checkbox, the stored settings hold a
  string in that field, and the checkbox reports \<^verbatim>\<open>checked = true\<close>: the handler reads
  \<^verbatim>\<open>typeof settings.comments\<close>, finds \<^verbatim>\<open>string\<close> and stores the raw value \<^verbatim>\<open>on\<close>, where the
  handler of the specification stores \<^verbatim>\<open>true\<close>.
\<close>

theorem handleChange_ignores_schema_counterexample:
  "handleChange [''comments'' \<mapsto> JStr ''yes'']
       \<lparr>target_name = ''comments'', target_value = JStr ''on'', target_checked = Some True\<rparr>
     = Some [''comments'' \<mapsto> JStr ''on'']
   \<and> handleChange_by_schema [BooleanCodeGenOption ''Comments'' ''comments'']
       [''comments'' \<mapsto> JStr ''yes'']
       \<lparr>target_name = ''comments'', target_value = JStr ''on'', target_checked = Some True\<rparr>
     = Some [''comments'' \<mapsto> JBool True]
   \<and> handleChange [''comments'' \<mapsto> JStr ''yes'']
       \<lparr>target_name = ''comments'', target_value = JStr ''on'', target_checked = Some True\<rparr>
     \<noteq> handleChange_by_schema [BooleanCodeGenOption ''Comments'' ''comments'']
       [''comments'' \<mapsto> JStr ''yes'']
       \<lparr>target_name = ''comments'', target_value = JStr ''on'', target_checked = Some True\<rparr>"
proof -
  have neq: "[''comments'' \<mapsto> JStr ''on''] \<noteq> [''comments'' \<mapsto> JBool True]"
    by (auto dest: map_upd_eqD1)
  show ?thesis
    using neq
    by (simp add: handleChange_def handleChange_by_schema_def declared_type_def
        js_in_def js_get_def)
qed

text \<open>
  C1, amended: the handler chooses the boolean treatment of a field from the runtime type
  of the value the settings object holds in it; it does what the handler of the
  specification does whenever the declared tag of the field is \<^verbatim>\<open>boolean\<close> exactly when
  the stored value is a boolean.
\<close>

theorem handleChange_decides_by_runtime_type:
  assumes "(declared_type opts (target_name target) = Some ''boolean'')
           = (typeof (js_get settings (target_name target)) = ''boolean'')"
  shows "handleChange settings target = handleChange_by_schema opts settings target"
  using assms by (simp add: handleChange_def handleChange_by_schema_def Let_def)

theorem handleChange_decides_by_runtime_type_witness:
  "(declared_type [BooleanCodeGenOption ''Comments'' ''comments''] ''comments''
      = Some ''boolean'')
   = (typeof (js_get [''comments'' \<mapsto> JBool False] ''comments'') = ''boolean'')
   \<and> handleChange [''comments'' \<mapsto> JBool False]
       \<lparr>target_name = ''comments'', target_value = JStr ''on'', target_checked = Some True\<rparr>
     = handleChange_by_schema [BooleanCodeGenOption ''Comments'' ''comments'']
       [''comments'' \<mapsto> JBool False]
       \<lparr>target_name = ''comments'', target_value = JStr ''on'', target_checked = Some True\<rparr>
   \<and> handleChange [''comments'' \<mapsto> JBool False]
       \<lparr>target_name = ''comments'', target_value = JStr ''on'', target_checked = Some True\<rparr>
     = Some [''comments'' \<mapsto> JBool True]"
proof -
  have h: "(declared_type [BooleanCodeGenOption ''Comments'' ''comments'']
              (target_name \<lparr>target_name = ''comments'', target_value = JStr ''on'',
                 target_checked = Some True\<rparr>) = Some ''boolean'')
           = (typeof (js_get [''comments'' \<mapsto> JBool False]
              (target_name \<lparr>target_name = ''comments'', target_value = JStr ''on'',
                 target_checked = Some True\<rparr>)) = ''boolean'')"
    by (simp add: declared_type_def js_get_def)
  have run: "handleChange [''comments'' \<mapsto> JBool False]
       \<lparr>target_name = ''comments'', target_value = JStr ''on'', target_checked = Some True\<rparr>
     = Some [''comments'' \<mapsto> JBool True]"
    by (simp add: handleChange_def js_in_def js_get_def)
  from handleChange_decides_by_runtime_type [OF h] h run show ?thesis by simp
qed

text \<open>
  C3, as the specification states it: a change event whose target name is not a key of
  the settings object is ignored. This fails for the names that every object inherits
  from \<^verbatim>\<open>Object.prototype\<close>: \<^verbatim>\<open>toString\<close> is not a key of the settings
  \<^verbatim>\<open>{comments: true}\<close>, yet \<^verbatim>\<open>'toString' in settings\<close> holds, the guard lets the event
  through, and the handler calls \<^verbatim>\<open>setSettings\<close> with an object that has the new field
  \<^verbatim>\<open>toString\<close>.
\<close>

theorem handleChange_inherited_name_counterexample:
  "[''comments'' \<mapsto> JBool True] ''toString'' = None
   \<and> ''toString'' \<notin> dom [''comments'' \<mapsto> JBool True]
   \<and> handleChange [''comments'' \<mapsto> JBool True]
        \<lparr>target_name = ''toString'', target_value = JStr ''x'', target_checked = Some False\<rparr>
      = Some [''comments'' \<mapsto> JBool True, ''toString'' \<mapsto> JStr ''x'']
   \<and> handleChange [''comments'' \<mapsto> JBool True]
        \<lparr>target_name = ''toString'', target_value = JStr ''x'', target_checked = Some False\<rparr>
      \<noteq> None
   \<and> [''comments'' \<mapsto> JBool True, ''toString'' \<mapsto> JStr ''x''] ''toString''
      = Some (JStr ''x'')"
  by (simp add: handleChange_def js_in_def js_get_def Object_prototype_def)

text \<open>
  C3, amended: a change event is ignored exactly when its target name is neither a key
  of the settings object nor the name of a property inherited from \<^verbatim>\<open>Object.prototype\<close>,
  that is, when \<^verbatim>\<open>event.target.name in settings\<close> is false. The handler then returns
  without a call of \<^verbatim>\<open>setSettings\<close>, the settings stay as they were, and on a settings
  object no error is raised.
\<close>

theorem handleChange_unknown_field_ignored:
  "(handleChange settings target = None)
     = (settings (target_name target) = None \<and> Object_prototype (target_name target) = None)
   \<and> (settings (target_name target) = None \<and> Object_prototype (target_name target) = None
      \<longrightarrow> settings_after settings target = settings
          \<and> handleChange_stored (SettingsObject settings) target = Inr None)"
  by (auto simp: handleChange_def settings_after_def handleChange_stored_def js_in_def Let_def)

theorem handleChange_unknown_field_ignored_witness:
  "[''comments'' \<mapsto> JBool True] ''indentation'' = None
   \<and> Object_prototype ''indentation'' = None
   \<and> handleChange [''comments'' \<mapsto> JBool True]
        \<lparr>target_name = ''indentation'', target_value = JStr ''tabs'',
         target_checked = Some False\<rparr>
      = None
   \<and> settings_after [''comments'' \<mapsto> JBool True]
        \<lparr>target_name = ''indentation'', target_value = JStr ''tabs'',
         target_checked = Some False\<rparr>
      = [''comments'' \<mapsto> JBool True]
   \<and> handleChange_stored (SettingsObject [''comments'' \<mapsto> JBool True])
        \<lparr>target_name = ''indentation'', target_value = JStr ''tabs'',
         target_checked = Some False\<rparr>
      = Inr None"
proof -
  let ?s = "[''comments'' \<mapsto> JBool True]"
  let ?t = "\<lparr>target_name = ''indentation'', target_value = JStr ''tabs'',
              target_checked = Some False\<rparr>"
  have own: "?s (target_name ?t) = None" by simp
  have inh: "Object_prototype (target_name ?t) = None" by (simp add: Object_prototype_def)
  from handleChange_unknown_field_ignored [of ?s ?t] own inh show ?thesis by simp
qed

text \<open>
  C7: for a field that exists in the settings, when the field is treated as boolean (the
  value it holds has the runtime type \<^verbatim>\<open>boolean\<close>) and the event target carries a
  \<^verbatim>\<open>checked\<close> flag, the handler stores the flag in the field; in every other case it stores
  the raw value of the target in the field.
\<close>

theorem handleChange_writes_checked_or_value:
  assumes "js_in (target_name target) settings"
  shows "(typeof (js_get settings (target_name target)) = ''boolean''
            \<and> target_checked target = Some b
          \<longrightarrow> handleChange settings target
                = Some (settings(target_name target \<mapsto> JBool b)))
       \<and> (typeof (js_get settings (target_name target)) \<noteq> ''boolean''
            \<or> target_checked target = None
          \<longrightarrow> handleChange settings target
                = Some (settings(target_name target \<mapsto> target_value target)))"
  using assms by (auto simp: handleChange_def Let_def)

theorem handleChange_writes_checked_or_value_witness:
  "js_in ''comments'' [''comments'' \<mapsto> JBool False, ''indentation'' \<mapsto> JStr ''spaces'']
   \<and> typeof (js_get [''comments'' \<mapsto> JBool False, ''indentation'' \<mapsto> JStr ''spaces'']
        ''comments'') = ''boolean''
   \<and> handleChange [''comments'' \<mapsto> JBool False, ''indentation'' \<mapsto> JStr ''spaces'']
        \<lparr>target_name = ''comments'', target_value = JStr ''on'', target_checked = Some True\<rparr>
      = Some [''comments'' \<mapsto> JBool True, ''indentation'' \<mapsto> JStr ''spaces'']
   \<and> js_in ''indentation'' [''comments'' \<mapsto> JBool False, ''indentation'' \<mapsto> JStr ''spaces'']
   \<and> typeof (js_get [''comments'' \<mapsto> JBool False, ''indentation'' \<mapsto> JStr ''spaces'']
        ''indentation'') \<noteq> ''boolean''
   \<and> handleChange [''comments'' \<mapsto> JBool False, ''indentation'' \<mapsto> JStr ''spaces'']
        \<lparr>target_name = ''indentation'', target_value = JStr ''tabs'', target_checked = None\<rparr>
      = Some [''comments'' \<mapsto> JBool False, ''indentation'' \<mapsto> JStr ''tabs'']"
proof -
  let ?s = "[''comments'' \<mapsto> JBool False, ''indentation'' \<mapsto> JStr ''spaces'']"
  let ?t1 = "\<lparr>target_name = ''comments'', target_value = JStr ''on'',
               target_checked = Some True\<rparr>"
  let ?t2 = "\<lparr>target_name = ''indentation'', target_value = JStr ''tabs'',
               target_checked = None\<rparr>"
  have in1: "js_in (target_name ?t1) ?s" by (simp add: js_in_def)
  have in2: "js_in (target_name ?t2) ?s" by (simp add: js_in_def)
  have ty1: "typeof (js_get ?s ''comments'') = ''boolean''" by (simp add: js_get_def)
  have ty2: "typeof (js_get ?s ''indentation'') \<noteq> ''boolean''" by (simp add: js_get_def)
  have upd1: "?s(''comments'' \<mapsto> JBool True)
                = [''comments'' \<mapsto> JBool True, ''indentation'' \<mapsto> JStr ''spaces'']"
    by (rule ext) simp
  from handleChange_writes_checked_or_value [OF in1, of True] ty1
  have r1: "handleChange ?s ?t1 = Some (?s(''comments'' \<mapsto> JBool True))" by simp
  from handleChange_writes_checked_or_value [OF in2, of True] ty2
  have r2: "handleChange ?s ?t2 = Some (?s(''indentation'' \<mapsto> JStr ''tabs''))" by simp
  from in1 in2 ty1 ty2 r1 r2 upd1 show ?thesis by simp
qed

text \<open>
  C10: when the handler accepts a change event and calls \<^verbatim>\<open>setSettings\<close>, the new settings
  object agrees with the previous one on every field other than the one the event target
  names: the same own property with the same value, or none, and the same value read.
\<close>

theorem handleChange_frame:
  assumes "handleChange settings target = Some s"
    and "field \<noteq> target_name target"
  shows "s field = settings field \<and> js_get s field = js_get settings field"
  using assms by (auto simp: handleChange_def Let_def js_get_def split: if_splits)

theorem handleChange_frame_witness:
  "handleChange [''comments'' \<mapsto> JBool False, ''indentation'' \<mapsto> JStr ''spaces'']
      \<lparr>target_name = ''comments'', target_value = JStr ''on'', target_checked = Some True\<rparr>
     = Some [''comments'' \<mapsto> JBool True, ''indentation'' \<mapsto> JStr ''spaces'']
   \<and> ''indentation'' \<noteq> ''comments''
   \<and> [''comments'' \<mapsto> JBool True, ''indentation'' \<mapsto> JStr ''spaces''] ''indentation''
       = [''comments'' \<mapsto> JBool False, ''indentation'' \<mapsto> JStr ''spaces''] ''indentation''
   \<and> js_get [''comments'' \<mapsto> JBool True, ''indentation'' \<mapsto> JStr ''spaces''] ''indentation''
       = js_get [''comments'' \<mapsto> JBool False, ''indentation'' \<mapsto> JStr ''spaces'']
           ''indentation''"
proof -
  let ?s = "[''comments'' \<mapsto> JBool False, ''indentation'' \<mapsto> JStr ''spaces'']"
  let ?s' = "[''comments'' \<mapsto> JBool True, ''indentation'' \<mapsto> JStr ''spaces'']"
  let ?t = "\<lparr>target_name = ''comments'', target_value = JStr ''on'',
              target_checked = Some True\<rparr>"
  have upd: "?s(''comments'' \<mapsto> JBool True) = ?s'"
    by (rule ext) simp
  have run: "handleChange ?s ?t = Some ?s'"
    using upd by (simp add: handleChange_def js_in_def js_get_def)
  have ne: "''indentation'' \<noteq> target_name ?t" by simp
  from handleChange_frame [OF run ne] run show ?thesis by simp
qed

section \<open>Properties of the code-generation contract\<close>

text \<open>
  C6, as the specification states it: every method of the contract other than \<^verbatim>\<open>get\<close> and
  \<^verbatim>\<open>getExtraFiles\<close> returns the instance. This fails: the interface declares
  \<^verbatim>\<open>submitExtraFile\<close> and \<^verbatim>\<open>clearExtraFiles\<close> with the return type \<^verbatim>\<open>void\<close> and
  \<^verbatim>\<open>nativeToCodeGenNative\<close> with the return type \<^verbatim>\<open>CodeGenNative\<close>.
\<close>

theorem contract_not_all_fluent_counterexample:
  "M_submitExtraFile \<noteq> M_get \<and> M_submitExtraFile \<noteq> M_getExtraFiles
   \<and> declared_return M_submitExtraFile = R_void
   \<and> declared_return M_submitExtraFile \<noteq> R_this
   \<and> declared_return M_clearExtraFiles \<noteq> R_this
   \<and> declared_return M_nativeToCodeGenNative \<noteq> R_this"
  by simp

text \<open>
  C6, amended: the methods that return the instance are exactly \<^verbatim>\<open>start\<close>, \<^verbatim>\<open>end\<close>,
  \<^verbatim>\<open>addNative\<close>, \<^verbatim>\<open>pushNamespace\<close> and \<^verbatim>\<open>popNamespace\<close>; \<^verbatim>\<open>submitExtraFile\<close> and
  \<^verbatim>\<open>clearExtraFiles\<close> are exactly the methods that return nothing;
  \<^verbatim>\<open>nativeToCodeGenNative\<close> is the one that returns the converted native, \<^verbatim>\<open>get\<close> the
  one that returns the text and \<^verbatim>\<open>getExtraFiles\<close> the one that returns the list of
  files.
\<close>

theorem contract_fluent_methods:
  "(declared_return m = R_this)
     = (m \<in> {M_start, M_end, M_addNative, M_pushNamespace, M_popNamespace})
   \<and> (declared_return m = R_void) = (m \<in> {M_submitExtraFile, M_clearExtraFiles})
   \<and> (declared_return m = R_CodeGenNative) = (m = M_nativeToCodeGenNative)
   \<and> (declared_return m = R_string) = (m = M_get)
   \<and> (declared_return m = R_CodeGeneratorFile_array) = (m = M_getExtraFiles)
   \<and> declared_return M_nativeToCodeGenNative = R_CodeGenNative
   \<and> declared_return M_get = R_string
   \<and> declared_return M_getExtraFiles = R_CodeGeneratorFile_array"
  by (cases m) simp_all

lemma extraFiles_foldl_submitExtraFile:
  "extraFiles (foldl submitExtraFile g files) = extraFiles g @ files"
  by (induction files arbitrary: g) (simp_all add: submitExtraFile_def)

text \<open>
  C5: on an instance whose list of extra files is empty, as at the start of an export
  run, \<open>M\<close> calls of \<^verbatim>\<open>submitExtraFile\<close> leave \<^verbatim>\<open>getExtraFiles()\<close> returning exactly the
  \<open>M\<close> submitted files in the order of submission; and in any state
  \<^verbatim>\<open>clearExtraFiles()\<close> followed by \<^verbatim>\<open>getExtraFiles()\<close> returns the empty list.
\<close>

theorem extra_files_accumulate:
  "(getExtraFiles g = [] \<longrightarrow>
      getExtraFiles (foldl submitExtraFile g files) = files
      \<and> length (getExtraFiles (foldl submitExtraFile g files)) = length files)
   \<and> getExtraFiles (clearExtraFiles g') = []"
  by (simp add: getExtraFiles_def clearExtraFiles_def extraFiles_foldl_submitExtraFile)

theorem extra_files_accumulate_witness:
  "getExtraFiles \<lparr>extraFiles = [], impl = ()\<rparr> = []
   \<and> getExtraFiles (submitExtraFile (submitExtraFile \<lparr>extraFiles = [], impl = ()\<rparr>
        \<lparr>file_name = ''hashes'', file_extension = ''json'', file_content = ''[]'',
         file_mimeType = ''application/json''\<rparr>)
        \<lparr>file_name = ''natives'', file_extension = ''hpp'', file_content = ''#pragma once'',
         file_mimeType = ''text/plain''\<rparr>)
      = [\<lparr>file_name = ''hashes'', file_extension = ''json'', file_content = ''[]'',
          file_mimeType = ''application/json''\<rparr>,
         \<lparr>file_name = ''natives'', file_extension = ''hpp'', file_content = ''#pragma once'',
          file_mimeType = ''text/plain''\<rparr>]
   \<and> getExtraFiles (clearExtraFiles
        \<lparr>extraFiles = [\<lparr>file_name = ''hashes'', file_extension = ''json'',
           file_content = ''[]'', file_mimeType = ''application/json''\<rparr>], impl = ()\<rparr>) = []"
proof -
  let ?g = "\<lparr>extraFiles = [], impl = ()\<rparr>"
  let ?f1 = "\<lparr>file_name = ''hashes'', file_extension = ''json'', file_content = ''[]'',
         file_mimeType = ''application/json''\<rparr>"
  let ?f2 = "\<lparr>file_name = ''natives'', file_extension = ''hpp'',
         file_content = ''#pragma once'', file_mimeType = ''text/plain''\<rparr>"
  have h: "getExtraFiles ?g = []" by (simp add: getExtraFiles_def)
  from extra_files_accumulate [of ?g "[?f1, ?f2]" "\<lparr>extraFiles = [?f1], impl = ()\<rparr>"] h
  show ?thesis by simp
qed

section \<open>Properties of the exporter\<close>

lemma add_natives_missing:
  "h \<in> set hs \<Longrightarrow> nats h = None \<Longrightarrow> add_natives B nats hs g \<noteq> Inr g'"
proof (induction hs arbitrary: g)
  case Nil
  then show ?case by simp
next
  case (Cons a hs)
  show ?case
  proof (cases "a = h")
    case True
    with Cons.prems show ?thesis by simp
  next
    case False
    with Cons.prems have "h \<in> set hs" by simp
    from Cons.IH [OF this Cons.prems(2)] show ?thesis
      by (simp split: option.split sum.split)
  qed
qed

lemma export_namespaces_missing:
  "(key, ns) \<in> set nss \<Longrightarrow> h \<in> set (ns_natives ns) \<Longrightarrow> nats h = None \<Longrightarrow>
     export_namespaces B nats nss g \<noteq> Inr g'"
proof (induction nss arbitrary: g)
  case Nil
  then show ?case by simp
next
  case (Cons p nss)
  obtain key' ns' where p: "p = (key', ns')" by (cases p)
  show ?case
  proof (cases "p = (key, ns)")
    case True
    with p have "ns' = ns" by simp
    moreover have "add_natives B nats (ns_natives ns) g1 \<noteq> Inr g2" for g1 g2
      using Cons.prems(2,3) by (rule add_natives_missing)
    ultimately show ?thesis using p
      by (simp split: sum.split)
  next
    case False
    with Cons.prems have "(key, ns) \<in> set nss" by simp
    from Cons.IH [OF this Cons.prems(2,3)] p show ?thesis
      by (simp split: sum.split)
  qed
qed

lemma sample_backend_run:
  "exportNatives sample_backend (gen_new sample_backend settings) sample_catalog =
     Inr (''NATIVE { 0xD49F9B0955C367DE; } '',
          \<lparr>extraFiles = [\<lparr>file_name = ''hashes'', file_extension = ''json'',
             file_content = ''[]'', file_mimeType = ''application/json''\<rparr>],
           impl = (''NATIVE { 0xD49F9B0955C367DE; } '', [])\<rparr>)"
  by (simp add: exportNatives_def sample_backend_def sample_catalog_def submitExtraFile_def)

text \<open>
  C2: when some namespace of the catalog lists a hash that the natives of the catalog
  lack, \<^verbatim>\<open>exportNatives\<close> fails, whatever the backend and the state of its instance: the
  result is an error and carries no text.
\<close>

theorem exportNatives_missing_hash_fails:
  assumes "(key, ns) \<in> set (namespaces catalog)"
    and "h \<in> set (ns_natives ns)"
    and "natives catalog h = None"
  shows "\<exists>e. exportNatives B g catalog = Inl e"
proof -
  have "export_namespaces B (natives catalog) (namespaces catalog) g1 \<noteq> Inr g2" for g1 g2
    using assms by (rule export_namespaces_missing)
  then have "exportNatives B g catalog \<noteq> Inr r" for r
    by (simp add: exportNatives_def split: sum.split)
  then show ?thesis by (cases "exportNatives B g catalog") auto
qed

theorem exportNatives_missing_hash_fails_witness:
  "(''NATIVE'', \<lparr>ns_name = ''NATIVE'',
       ns_natives = [''0xD49F9B0955C367DE'', ''0x4EDE34FBADD967A6'']\<rparr>)
     \<in> set (namespaces broken_catalog)
   \<and> ''0x4EDE34FBADD967A6'' \<in> set [''0xD49F9B0955C367DE'', ''0x4EDE34FBADD967A6'']
   \<and> natives broken_catalog ''0x4EDE34FBADD967A6'' = None
   \<and> (\<exists>e. exportNatives sample_backend (gen_new sample_backend Map.empty) broken_catalog
          = Inl e)"
proof -
  let ?ns = "\<lparr>ns_name = ''NATIVE'',
       ns_natives = [''0xD49F9B0955C367DE'', ''0x4EDE34FBADD967A6'']\<rparr>"
  have h1: "(''NATIVE'', ?ns) \<in> set (namespaces broken_catalog)"
    by (simp add: broken_catalog_def)
  have h2: "''0x4EDE34FBADD967A6'' \<in> set (ns_natives ?ns)" by simp
  have h3: "natives broken_catalog ''0x4EDE34FBADD967A6'' = None"
    by (simp add: broken_catalog_def)
  from exportNatives_missing_hash_fails [OF h1 h2 h3] h1 h2 h3 show ?thesis by simp
qed

section \<open>Properties of the page\<close>

lemma foldl_snoc_map: "foldl (\<lambda>acc x. acc @ [f x]) start xs = start @ map f xs"
  by (induction xs arbitrary: start) simp_all

text \<open>
  C8: after a successful export, the download action offers the main text and then one
  download for each extra file that \<^verbatim>\<open>getExtraFiles()\<close> returns, in order, with the content
  and the MIME type of the file and the file name followed by a dot and the extension as
  its filename.
\<close>

theorem handleDownload_offers_extra_files:
  assumes "exportNatives generator (gen_new generator settings) catalog = Inr (code, exporter)"
  shows "handleDownload generator extension settings catalog offered =
     Inr (offered @
       \<lparr>dl_data = code, dl_filename = ''natives.'' @ extension,
        dl_mimeType = ''text/plain''\<rparr> #
       map (\<lambda>file. \<lparr>dl_data = file_content file,
                    dl_filename = file_name file @ ''.'' @ file_extension file,
                    dl_mimeType = file_mimeType file\<rparr>) (getExtraFiles exporter))"
  using assms by (simp add: handleDownload_def foldl_snoc_map)

theorem handleDownload_offers_extra_files_witness:
  "exportNatives sample_backend (gen_new sample_backend Map.empty) sample_catalog =
     Inr (''NATIVE { 0xD49F9B0955C367DE; } '',
          \<lparr>extraFiles = [\<lparr>file_name = ''hashes'', file_extension = ''json'',
             file_content = ''[]'', file_mimeType = ''application/json''\<rparr>],
           impl = (''NATIVE { 0xD49F9B0955C367DE; } '', [])\<rparr>)
   \<and> handleDownload sample_backend ''hpp'' Map.empty sample_catalog [] =
     Inr [\<lparr>dl_data = ''NATIVE { 0xD49F9B0955C367DE; } '', dl_filename = ''natives.hpp'',
           dl_mimeType = ''text/plain''\<rparr>,
          \<lparr>dl_data = ''[]'', dl_filename = ''hashes.json'',
           dl_mimeType = ''application/json''\<rparr>]"
  using handleDownload_offers_extra_files
      [where extension = "''hpp''" and offered = "[]", OF sample_backend_run [of Map.empty]]
    sample_backend_run [of Map.empty]
  by (simp add: getExtraFiles_def)

text \<open>
  The preview names each extra file in the same way and tags it with the part of its MIME
  type after the first slash.
\<close>

lemma foldl_extra_files_map:
  "foldl (\<lambda>res file. res\<lparr>pv_extra_files := pv_extra_files res @ [f file]\<rparr>) res0 files
     = res0\<lparr>pv_extra_files := pv_extra_files res0 @ map f files\<rparr>"
  by (induction files arbitrary: res0) simp_all

lemma preview_extra_files:
  assumes "exportNatives generator (gen_new generator settings)
             \<lparr>namespaces =
                [(native_namespace nativeData,
                  \<lparr>ns_name = native_namespace nativeData,
                   ns_natives = [native_hash nativeData]\<rparr>)],
              natives = [native_hash nativeData \<mapsto> nativeData]\<rparr> = Inr (maincode, exporter)"
  shows "preview generator settings nativeData =
     Inr \<lparr>pv_main = maincode,
          pv_extra_files =
            map (\<lambda>file. \<lparr>pv_name = file_name file @ ''.'' @ file_extension file,
                         pv_content = file_content file,
                         pv_language = mime_language (file_mimeType file)\<rparr>)
              (getExtraFiles exporter)\<rparr>"
  unfolding preview_def assms foldl_extra_files_map by simp

section \<open>Two invocations of the export\<close>













text \<open>
  With a backend that is not deterministic two invocations can differ: the stamping
  backend gives the same catalog two main texts.
\<close>

lemma stamping_backend_invocations_differ:
  "export_invocation stamping_backend Map.empty sample_catalog
     (Inr (''NATIVE { 0xD49F9B0955C367DE; } '',
           [\<lparr>file_name = ''hashes'', file_extension = ''json'',
             file_content = ''[]'', file_mimeType = ''application/json''\<rparr>]))
   \<and> export_invocation stamping_backend Map.empty sample_catalog
     (Inr (''NATIVE { 0xD49F9B0955C367DE; } // 12:00'',
           [\<lparr>file_name = ''hashes'', file_extension = ''json'',
             file_content = ''[]'', file_mimeType = ''application/json''\<rparr>]))"
  by (force simp: export_invocation_def exportNatives_may_def stamping_backend_def
      backend_graph_def sample_backend_def sample_catalog_def submitExtraFile_def
      export_outputs_def getExtraFiles_def)



end
